theory Spec2Isabelle
  imports Complex_Main "HOL-Library.Sublist"
begin

section \<open>Values of the JavaScript runtime\<close>

text \<open>
  A thrown exception is a value: \<open>exn + 'a\<close> is the result of a call that may throw,
  \<open>Inl\<close> carrying what was thrown. \<open>TypeError\<close> is what the engine throws on a property
  read of \<open>undefined\<close>; \<open>Error\<close> is everything thrown by a library or by the code itself.
  Only the message of an exception is ever read (\<open>error.message\<close>).
\<close>

datatype exn = Error string | TypeError string

fun message_of :: "exn \<Rightarrow> string" where
  "message_of (Error m) = m"
| "message_of (TypeError m) = m"

text \<open>
  A number read from a provider's answer is a number, \<open>undefined\<close> (the field is absent) or
  \<open>NaN\<close> (arithmetic on \<open>undefined\<close>). The numbers are the finite doubles, as reals.
\<close>

datatype jsnum = Undefined | NaN | Num real

text \<open>
  \<open>a * b\<close> where \<open>b\<close> is a number. The product of two doubles is their exact product
  rounded to a double; the rounding \<open>rnd\<close> is the engine's and is a parameter. The product
  of a double with 1 is that double, which needs no rounding.
\<close>

fun times_js :: "(real \<Rightarrow> real) \<Rightarrow> jsnum \<Rightarrow> real \<Rightarrow> jsnum" where
  "times_js rnd (Num a) b = Num (if b = 1 then a else rnd (a * b))"
| "times_js rnd Undefined b = NaN"
| "times_js rnd NaN b = NaN"

text \<open>\<open>a < b\<close>: false as soon as one side is not a number.\<close>

fun less_js :: "jsnum \<Rightarrow> jsnum \<Rightarrow> bool" where
  "less_js (Num a) (Num b) = (a < b)"
| "less_js _ _ = False"

text \<open>\<open>s.includes(sub)\<close>: \<open>sub\<close> occurs in \<open>s\<close> as a run of consecutive characters.\<close>

fun includes_str :: "string \<Rightarrow> string \<Rightarrow> bool" where
  "includes_str [] sub = (sub = [])"
| "includes_str (c # cs) sub = (prefix sub (c # cs) \<or> includes_str cs sub)"

text \<open>The character class \<open>[A-Z]\<close>, by character code.\<close>

definition is_AZ :: "char \<Rightarrow> bool" where
  "is_AZ c = ((65::nat) \<le> of_char c \<and> of_char c \<le> (90::nat))"

text \<open>\<open>/^[A-Z]+$/.test(s)\<close>: one or more characters of the class, and nothing else.\<close>

fun test_AZ_plus :: "string \<Rightarrow> bool" where
  "test_AZ_plus [] = False"
| "test_AZ_plus [c] = is_AZ c"
| "test_AZ_plus (c # cs) = (is_AZ c \<and> test_AZ_plus cs)"


section \<open>Symbol normalisation (chat route)\<close>

text \<open>
  The first statements of the loop body of \<open>getStockPrice\<close>:
  \<^verbatim>\<open>let querySymbol = symbol;
  if (!symbol.includes('.') && /^[A-Z]+$/.test(symbol)) { querySymbol = `${symbol}.NS`; }\<close>
\<close>

definition normalizeEquity :: "string \<Rightarrow> string" where
  "normalizeEquity symbol =
     (if \<not> includes_str symbol ''.'' \<and> test_AZ_plus symbol then symbol @ ''.NS'' else symbol)"

text \<open>
  The first statement of the loop body of \<open>getCryptoPrice\<close>:
  \<^verbatim>\<open>if (!symbol.includes('-')) { symbol = `${symbol}-USD`; }\<close>
\<close>

definition normalizeCrypto :: "string \<Rightarrow> string" where
  "normalizeCrypto symbol = (if \<not> includes_str symbol ''-'' then symbol @ ''-USD'' else symbol)"


section \<open>The log store\<close>

text \<open>
  A record of the chat log as the chat route writes it: the key \<open>messageId\<close>, three strings
  and the map \<open>actions\<close>. The store is schemaless, so \<open>actions\<close> is a map from attribute
  names to attribute values.
\<close>

datatype attr = BOOL bool | S string

record log_item =
  logMessageId :: string
  timestamp :: string
  userQuery :: "string option"
  chatbotResponse :: "string option"
  actions :: "string \<rightharpoonup> attr"

type_synonym table = "string \<rightharpoonup> log_item"

text \<open>
  The \<open>UpdateItemCommand\<close> of the feedback route. The update expression is a \<open>SET\<close> with
  one clause per assignment; a clause is a document path, whose segments are attribute
  names or \<open>#\<close>-placeholders, and a \<open>:\<close>-placeholder for the value.
\<close>

datatype segment = Name string | Placeholder string

type_synonym set_clause = "segment list \<times> string"

record update_item_command =
  Key :: string
  UpdateExpression :: "set_clause list"
  ExpressionAttributeNames :: "(string \<times> string) list"
  ExpressionAttributeValues :: "(string \<times> attr) list"

text \<open>
  The store is not part of the repository. The two routes are parametric in what a
  command sent to it does: \<open>send db cmd\<close> throws or gives the store after the command.
  \<open>ddb_update\<close> and \<open>ddb_put\<close> are the documented behaviour of the two commands on a
  table of log records: \<open>PutItem\<close> stores the item under its key; \<open>UpdateItem\<close> resolves
  the placeholders and assigns at each path, and rejects a path whose parent map does
  not exist, which is the case of every path \<open>actions.x\<close> when the key has no item
  (the item it would create has the key only). A rejected command changes nothing.
\<close>

fun resolve_segment :: "(string \<times> string) list \<Rightarrow> segment \<Rightarrow> string option" where
  "resolve_segment names (Name a) = Some a"
| "resolve_segment names (Placeholder p) = map_of names p"

definition resolve_clause ::
  "(string \<times> string) list \<Rightarrow> (string \<times> attr) list \<Rightarrow> set_clause \<Rightarrow> (string list \<times> attr) option" where
  "resolve_clause names vals cl =
     (case (those (map (resolve_segment names) (fst cl)), map_of vals (snd cl)) of
        (Some path, Some v) \<Rightarrow> Some (path, v)
      | _ \<Rightarrow> None)"

fun assign_path :: "log_item \<Rightarrow> string list \<times> attr \<Rightarrow> log_item option" where
  "assign_path it ([a, f], v) =
     (if a = ''actions'' then Some (it\<lparr>actions := (actions it)(f \<mapsto> v)\<rparr>) else None)"
| "assign_path it _ = None"

fun assign_all :: "log_item \<Rightarrow> (string list \<times> attr) list \<Rightarrow> log_item option" where
  "assign_all it [] = Some it"
| "assign_all it (c # cs) =
     (case assign_path it c of None \<Rightarrow> None | Some it' \<Rightarrow> assign_all it' cs)"

definition invalid_path :: exn where
  "invalid_path = Error ''The document path provided in the update expression is invalid for update''"

definition ddb_update :: "table \<Rightarrow> update_item_command \<Rightarrow> exn + table" where
  "ddb_update t cmd =
     (case those (map (resolve_clause (ExpressionAttributeNames cmd) (ExpressionAttributeValues cmd))
                      (UpdateExpression cmd)) of
        None \<Rightarrow> Inl (Error ''Invalid UpdateExpression'')
      | Some cs \<Rightarrow>
          (case t (Key cmd) of
             None \<Rightarrow> Inl invalid_path
           | Some it \<Rightarrow>
               (case assign_all it cs of
                  None \<Rightarrow> Inl invalid_path
                | Some it' \<Rightarrow> Inr (t(Key cmd \<mapsto> it')))))"

definition ddb_put :: "table \<Rightarrow> log_item \<Rightarrow> exn + table" where
  "ddb_put t it = Inr (t(logMessageId it \<mapsto> it))"


section \<open>The feedback route\<close>

text \<open>
  The body of the request, \<open>{ messageId, action, reportMessage }\<close>; \<open>reportMessage\<close> may be
  absent. A response is its status and the string fields of its JSON body.
\<close>

record feedback_body =
  messageId :: string
  action :: string
  reportMessage :: "string option"

record response =
  status :: nat
  body :: "(string \<times> string) list"

text \<open>
  The command built from the body (lines 25 to 48 of the route): the clause, the name and
  the value for the chosen action first, to which the branch of the action appends the
  clause that clears the opposite flag, or the one that stores the report message
  (\<open>reportMessage || ''\<close>).
\<close>

definition report_text :: "string option \<Rightarrow> string" where
  "report_text rm = (case rm of None \<Rightarrow> [] | Some m \<Rightarrow> m)"

definition updateCommand :: "feedback_body \<Rightarrow> update_item_command" where
  "updateCommand b =
     (let cmd = \<lparr>Key = messageId b,
                 UpdateExpression = [([Name ''actions'', Placeholder ''#action''], '':true'')],
                 ExpressionAttributeNames = [(''#action'', action b)],
                 ExpressionAttributeValues = [('':true'', BOOL True)]\<rparr>
      in if action b = ''like'' then
           cmd\<lparr>UpdateExpression :=
                  UpdateExpression cmd @ [([Name ''actions'', Placeholder ''#dislike''], '':false'')],
               ExpressionAttributeNames :=
                  ExpressionAttributeNames cmd @ [(''#dislike'', ''dislike'')],
               ExpressionAttributeValues :=
                  ExpressionAttributeValues cmd @ [('':false'', BOOL False)]\<rparr>
         else if action b = ''dislike'' then
           cmd\<lparr>UpdateExpression :=
                  UpdateExpression cmd @ [([Name ''actions'', Placeholder ''#like''], '':false'')],
               ExpressionAttributeNames :=
                  ExpressionAttributeNames cmd @ [(''#like'', ''like'')],
               ExpressionAttributeValues :=
                  ExpressionAttributeValues cmd @ [('':false'', BOOL False)]\<rparr>
         else if action b = ''report'' then
           cmd\<lparr>UpdateExpression :=
                  UpdateExpression cmd @ [([Name ''actions'', Name ''reportMessage''], '':reportMsg'')],
               ExpressionAttributeValues :=
                  ExpressionAttributeValues cmd
                    @ [('':reportMsg'', S (report_text (reportMessage b)))]\<rparr>
         else cmd)"

definition failed_update :: "exn \<Rightarrow> response" where
  "failed_update e =
     \<lparr>status = 500, body = [(''error'', ''Failed to update feedback''), (''details'', message_of e)]\<rparr>"

text \<open>
  \<open>PUT\<close>: the request's JSON (reading it may throw), the validation of the action, the one
  command sent, and the response; the \<open>catch\<close> turns every exception into status 500.
\<close>

definition PUT ::
  "('db \<Rightarrow> update_item_command \<Rightarrow> exn + 'db) \<Rightarrow> 'db \<Rightarrow> exn + feedback_body \<Rightarrow> response \<times> 'db" where
  "PUT send db request_json =
     (case request_json of
        Inl e \<Rightarrow> (failed_update e, db)
      | Inr b \<Rightarrow>
          if action b \<notin> set [''like'', ''dislike'', ''report''] then
            (\<lparr>status = 400, body = [(''error'', ''Invalid action'')]\<rparr>, db)
          else
            (case send db (updateCommand b) of
               Inl e \<Rightarrow> (failed_update e, db)
             | Inr db' \<Rightarrow>
                 (\<lparr>status = 200,
                   body = [(''message'', ''Feedback updated successfully''),
                           (''messageId'', messageId b)]\<rparr>, db')))"

text \<open>
  One feedback update on a table, and a sequence of them on one record, each given as
  the action and the optional report message.
\<close>

definition applyFeedback :: "table \<Rightarrow> string \<Rightarrow> string \<Rightarrow> string option \<Rightarrow> table" where
  "applyFeedback t mid a rm =
     snd (PUT ddb_update t (Inr \<lparr>messageId = mid, action = a, reportMessage = rm\<rparr>))"

fun applyFeedbacks :: "table \<Rightarrow> string \<Rightarrow> (string \<times> string option) list \<Rightarrow> table" where
  "applyFeedbacks t mid [] = t"
| "applyFeedbacks t mid (x # xs) = applyFeedbacks (applyFeedback t mid (fst x) (snd x)) mid xs"

text \<open>
  An attribute of the \<open>actions\<close> of the record under a key, and the exclusion of the two
  flags \<open>like\<close> and \<open>dislike\<close> of that record: they are not both true.
\<close>

definition flag :: "table \<Rightarrow> string \<Rightarrow> string \<Rightarrow> attr option" where
  "flag t mid f = (case t mid of None \<Rightarrow> None | Some it \<Rightarrow> actions it f)"

definition exclusive :: "table \<Rightarrow> string \<Rightarrow> bool" where
  "exclusive t mid =
     (\<not> (flag t mid ''like'' = Some (BOOL True) \<and> flag t mid ''dislike'' = Some (BOOL True)))"

text \<open>A table of one record, as \<open>POST\<close> writes them.\<close>

definition demo_item :: log_item where
  "demo_item =
     \<lparr>logMessageId = ''m-0'', timestamp = ''2025-02-06T05:00:00.000Z'',
      userQuery = Some ''Price of TCS?'', chatbotResponse = Some ''TCS trades at 3500.'',
      actions = [''like'' \<mapsto> BOOL False, ''dislike'' \<mapsto> BOOL False,
                 ''report'' \<mapsto> BOOL False, ''reportMessage'' \<mapsto> S []]\<rparr>"

definition demo_table :: table where
  "demo_table = [''m-0'' \<mapsto> demo_item]"


section \<open>The market-data provider and the other services of the chat route\<close>

text \<open>
  What the code reads of a quote: the price, the two names, the two changes and the
  market capitalisation. A name may be absent, a number \<open>undefined\<close>.
\<close>

record quote_data =
  regularMarketPrice :: jsnum
  longName :: "string option"
  shortName :: "string option"
  regularMarketChange :: jsnum
  regularMarketChangePercent :: jsnum
  quoteMarketCap :: jsnum

record coin =
  coin_symbol :: string
  coin_name :: string

text \<open>A message of a conversation, and the message of a completion, which may carry a
  function call: its name and its argument blob.\<close>

record args =
  symbols :: "string list option"
  underPrice :: jsnum
  limit :: "int option"
  currency :: "string option"
  category :: "string option"

text \<open>What \<open>JSON.parse\<close> makes of an argument blob: a syntax error, or the object.\<close>

datatype blob = Malformed | Parsed args

record function_call =
  call_name :: string
  arguments :: "blob option"

record message =
  role :: string
  content :: "string option"

record assistant_message = message +
  function_call :: "function_call option"

text \<open>
  One entry of a batch: the object of a fetched asset, the error marker
  \<open>{ symbol, error }\<close>, or the placeholder \<open>{ message }\<close>, whose text is fixed up to the
  price it quotes. \<open>detailedInfo\<close> and \<open>news\<close> are \<open>None\<close> in the objects that have no such
  field; a \<open>detailedInfo\<close> of \<open>Some None\<close> is \<open>null\<close>. Provider documents that the code
  passes on unread (history rows, summaries, news items, company sections) are strings.
\<close>

record asset =
  symbol :: string
  name :: string
  dates :: "string list"
  prices :: "jsnum list"
  history :: "(string \<times> jsnum) list"
  change :: jsnum
  changePercentage :: jsnum
  marketCap :: jsnum
  detailedInfo :: "string option option"
  news :: "string list option"

datatype entry = Asset asset | Failed string string | NoneUnder jsnum

text \<open>What a function of the dispatch table returns, the \<open>functionResponse\<close> of \<open>POST\<close>.\<close>

datatype tool_result =
    Entries "entry list"
  | ErrorObject string
  | MarketUpdate tool_result "string list"
  | CompanyDoc "(string \<times> string) list"
  | CompanySection string "string option"

text \<open>
  The requests made of the language model: the first one, with the function catalogue,
  and the two narrations, each with the conversation and the function's result, which
  the code serialises into the prompt.
\<close>

datatype completion_request =
    Decide "message list"
  | NarrateCompany "message list" tool_result
  | NarrateUpdate "message list" tool_result

text \<open>
  The services are read through functions of the request made: within one call of the
  route, the same ticker gets the same answer. \<open>quote\<close> may return nothing, \<open>search\<close> a
  result without news, the exchange's home page no cookie, its gainers endpoint and
  the coin ranking no rows; each call may throw. \<open>now\<close> is the clock, \<open>uuidv4\<close> the
  identifier generated for the request, \<open>development\<close> whether \<open>NODE_ENV\<close> is
  \<open>development\<close>. Two functions of the engine are parameters as well: \<open>toUpperCase\<close>, which
  is \<open>String.prototype.toUpperCase\<close> and maps every cased letter, and \<open>round_double\<close>, the
  rounding of a real to a double.
\<close>

record world =
  quote :: "string \<Rightarrow> exn + quote_data option"
  historical :: "string \<Rightarrow> exn + (string \<times> jsnum) list"
  quoteSummary :: "string \<Rightarrow> exn + string"
  search :: "string \<Rightarrow> exn + string list option"
  nse_home :: "exn + string list option"
  nse_gainers :: "string \<Rightarrow> exn + string list option"
  coingecko :: "int \<Rightarrow> exn + coin list option"
  findCompany :: "exn + (string \<times> string) list option"
  create :: "completion_request \<Rightarrow> exn + assistant_message"
  now :: string
  uuidv4 :: string
  development :: bool
  toUpperCase :: "string \<Rightarrow> string"
  round_double :: "real \<Rightarrow> real"

text \<open>\<open>a || b\<close> on a string that may be absent: the empty string is falsy too.\<close>

definition or_string :: "string option \<Rightarrow> string \<Rightarrow> string" where
  "or_string a b = (case a of None \<Rightarrow> b | Some s \<Rightarrow> if s = [] then b else s)"

text \<open>\<open>xs.slice(0, k)\<close>: a negative \<open>k\<close> counts from the end.\<close>

definition slice0 :: "'a list \<Rightarrow> int \<Rightarrow> 'a list" where
  "slice0 xs k = take (nat (if k < 0 then int (length xs) + k else k)) xs"

text \<open>\<open>xs.join(sep)\<close>.\<close>

fun join :: "string \<Rightarrow> string list \<Rightarrow> string" where
  "join sep [] = []"
| "join sep [x] = x"
| "join sep (x # xs) = x @ sep @ join sep xs"


section \<open>The helpers of the chat route\<close>

text \<open>Each helper catches what its call throws.\<close>

definition fetchRealtimeData :: "world \<Rightarrow> string \<Rightarrow> (string list \<times> jsnum list) option" where
  "fetchRealtimeData w ticker =
     (case quote w ticker of
        Inl e \<Rightarrow> None
      | Inr None \<Rightarrow> None
      | Inr (Some q) \<Rightarrow> Some ([now w], [regularMarketPrice q]))"

definition fetchHistoricalData :: "world \<Rightarrow> string \<Rightarrow> (string \<times> jsnum) list" where
  "fetchHistoricalData w ticker =
     (case historical w ticker of Inl e \<Rightarrow> [] | Inr rows \<Rightarrow> map (\<lambda>item. (fst item, snd item)) rows)"

definition fetchDetailedInfo :: "world \<Rightarrow> string \<Rightarrow> string option" where
  "fetchDetailedInfo w ticker =
     (case quoteSummary w ticker of Inl e \<Rightarrow> None | Inr d \<Rightarrow> Some d)"

definition fetchNews :: "world \<Rightarrow> string \<Rightarrow> string list" where
  "fetchNews w ticker =
     (case search w ticker of Inl e \<Rightarrow> [] | Inr None \<Rightarrow> [] | Inr (Some ns) \<Rightarrow> ns)"

definition fetchMarketNews :: "world \<Rightarrow> string list" where
  "fetchMarketNews w = fetchNews w ''Indian stock market''"

definition fetchCryptoMarketNews :: "world \<Rightarrow> string list" where
  "fetchCryptoMarketNews w = fetchNews w ''cryptocurrency market news''"

text \<open>
  \<open>r.prices[0]\<close>, the read of the price filters: a \<open>TypeError\<close> on an object without
  \<open>prices\<close>, \<open>undefined\<close> on an empty array.
\<close>

definition no_prices :: exn where
  "no_prices = TypeError ''Cannot read properties of undefined (reading '0')''"

fun prices0 :: "entry \<Rightarrow> exn + jsnum" where
  "prices0 (Asset a) = Inr (case prices a of [] \<Rightarrow> Undefined | p # ps \<Rightarrow> p)"
| "prices0 (Failed s e) = Inl no_prices"
| "prices0 (NoneUnder u) = Inl no_prices"

text \<open>
  \<open>results.filter((r) => r.prices[0] < underPrice)\<close>: the callback runs on the entries
  in order, and what it throws ends the filter.
\<close>

fun filter_under :: "jsnum \<Rightarrow> entry list \<Rightarrow> exn + entry list" where
  "filter_under u [] = Inr []"
| "filter_under u (r # rs) =
     (case prices0 r of
        Inl e \<Rightarrow> Inl e
      | Inr p \<Rightarrow>
          (case filter_under u rs of
             Inl e \<Rightarrow> Inl e
           | Inr rs' \<Rightarrow> Inr (if less_js p u then r # rs' else rs')))"


section \<open>getStockPrice\<close>

text \<open>
  The body of the loop: the \<open>try\<close> block pushes one entry or throws, and the \<open>catch\<close>
  pushes the marker \<open>Unable to fetch data\<close>. Reading \<open>longName\<close> of a quote that is
  \<open>undefined\<close> throws inside the \<open>try\<close>. The marker carries the symbol as given, the asset
  object the symbol that was queried.
\<close>

definition stockItem :: "world \<Rightarrow> string \<Rightarrow> entry" where
  "stockItem w s =
     (let querySymbol = normalizeEquity s in
      case quote w querySymbol of
        Inl e \<Rightarrow> Failed s ''Unable to fetch data''
      | Inr q \<Rightarrow>
          (case fetchRealtimeData w querySymbol of
             None \<Rightarrow> Failed s ''No real-time data available''
           | Some rtData \<Rightarrow>
               (case q of
                  None \<Rightarrow> Failed s ''Unable to fetch data''
                | Some qd \<Rightarrow>
                    Asset \<lparr>symbol = querySymbol,
                           name = or_string (longName qd) s,
                           dates = fst rtData,
                           prices = snd rtData,
                           history = fetchHistoricalData w querySymbol,
                           change = regularMarketChange qd,
                           changePercentage = regularMarketChangePercent qd,
                           marketCap = quoteMarketCap qd,
                           detailedInfo = Some (fetchDetailedInfo w querySymbol),
                           news = Some (fetchNews w querySymbol)\<rparr>)))"

fun stockLoop :: "world \<Rightarrow> entry list \<Rightarrow> string list \<Rightarrow> entry list" where
  "stockLoop w results [] = results"
| "stockLoop w results (s # rest) = stockLoop w (results @ [stockItem w s]) rest"

definition getStockPrice :: "world \<Rightarrow> string list \<Rightarrow> jsnum \<Rightarrow> exn + entry list" where
  "getStockPrice w syms u =
     (let results = stockLoop w [] syms in
      if u \<noteq> Undefined then filter_under u results else Inr results)"


section \<open>getTopStocks\<close>

text \<open>
  The inner loop pushes an asset or nothing: a ticker whose quote throws, or that has
  no realtime data, is skipped. The outer \<open>catch\<close> answers every failure of the two
  requests to the exchange, and the absence of rows, with one error object. The price
  filter runs after the \<open>try\<close>.
\<close>

definition topStockItem :: "world \<Rightarrow> string \<Rightarrow> entry option" where
  "topStockItem w s =
     (case quote w s of
        Inl e \<Rightarrow> None
      | Inr q \<Rightarrow>
          (case fetchRealtimeData w s of
             None \<Rightarrow> None
           | Some rtData \<Rightarrow>
               (case q of
                  None \<Rightarrow> None
                | Some qd \<Rightarrow>
                    Some (Asset \<lparr>symbol = s,
                                 name = or_string (longName qd) s,
                                 dates = fst rtData,
                                 prices = snd rtData,
                                 history = fetchHistoricalData w s,
                                 change = regularMarketChange qd,
                                 changePercentage = regularMarketChangePercent qd,
                                 marketCap = quoteMarketCap qd,
                                 detailedInfo = Some (fetchDetailedInfo w s),
                                 news = Some (fetchNews w s)\<rparr>))))"

fun topStockLoop :: "world \<Rightarrow> entry list \<Rightarrow> string list \<Rightarrow> entry list" where
  "topStockLoop w results [] = results"
| "topStockLoop w results (s # rest) =
     topStockLoop w (case topStockItem w s of None \<Rightarrow> results | Some r \<Rightarrow> results @ [r]) rest"

definition no_trending :: tool_result where
  "no_trending = ErrorObject ''Unable to fetch trending Indian stocks from NSE.''"

definition getTopStocks :: "world \<Rightarrow> int \<Rightarrow> jsnum \<Rightarrow> exn + tool_result" where
  "getTopStocks w k u =
     (case nse_home w of
        Inl e \<Rightarrow> Inr no_trending
      | Inr cookies \<Rightarrow>
          (let cookieHeader = (case cookies of None \<Rightarrow> [] | Some cs \<Rightarrow> join ''; '' cs) in
           case nse_gainers w cookieHeader of
             Inl e \<Rightarrow> Inr no_trending
           | Inr None \<Rightarrow> Inr no_trending
           | Inr (Some trendingData) \<Rightarrow>
               if trendingData = [] then Inr no_trending
               else
                 (let syms = map (\<lambda>s. if includes_str s ''.'' then s else s @ ''.NS'')
                                 (slice0 trendingData k);
                      results = topStockLoop w [] syms
                  in if u \<noteq> Undefined then
                       (case filter_under u results of
                          Inl e \<Rightarrow> Inl e
                        | Inr filtered \<Rightarrow> Inr (Entries filtered))
                     else Inr (Entries results))))"


section \<open>getCryptoPrice and getTopCryptos\<close>

text \<open>
  The conversion rate: 1, replaced when the currency is \<open>INR\<close> by
  \<open>rateQuote.regularMarketPrice || 1\<close>; the \<open>catch\<close> leaves it at 1 when the quote throws
  or is \<open>undefined\<close>.
\<close>

definition conversionRate :: "world \<Rightarrow> string \<Rightarrow> real" where
  "conversionRate w cur =
     (if cur = ''INR'' then
        (case quote w ''USDINR=X'' of
           Inl e \<Rightarrow> 1
         | Inr None \<Rightarrow> 1
         | Inr (Some rateQuote) \<Rightarrow>
             (case regularMarketPrice rateQuote of
                Num r \<Rightarrow> if r = 0 then 1 else r
              | Undefined \<Rightarrow> 1
              | NaN \<Rightarrow> 1))
      else 1)"

text \<open>
  The body of the loop of \<open>getCryptoPrice\<close>. The loop variable itself is normalised, so
  the error marker carries the normalised symbol.
\<close>

definition cryptoItem :: "world \<Rightarrow> string \<Rightarrow> real \<Rightarrow> string \<Rightarrow> entry" where
  "cryptoItem w cur rate s0 =
     (let s = normalizeCrypto s0 in
      case quote w s of
        Inl e \<Rightarrow> Failed s ''Unable to fetch data''
      | Inr q \<Rightarrow>
          (case fetchRealtimeData w s of
             None \<Rightarrow> Failed s ''No real-time data available''
           | Some rtData \<Rightarrow>
               (let price0 = (case snd rtData of [] \<Rightarrow> Undefined | p # ps \<Rightarrow> p);
                    price = (if cur = ''INR'' then times_js (round_double w) price0 rate else price0)
                in case q of
                     None \<Rightarrow> Failed s ''Unable to fetch data''
                   | Some qd \<Rightarrow>
                       Asset \<lparr>symbol = s,
                              name = or_string (shortName qd) s,
                              dates = fst rtData,
                              prices = [price],
                              history = fetchHistoricalData w s,
                              change = regularMarketChange qd,
                              changePercentage = regularMarketChangePercent qd,
                              marketCap = quoteMarketCap qd,
                              detailedInfo = Some (fetchDetailedInfo w s),
                              news = Some (fetchNews w s)\<rparr>)))"

fun cryptoLoop :: "world \<Rightarrow> string \<Rightarrow> real \<Rightarrow> entry list \<Rightarrow> string list \<Rightarrow> entry list" where
  "cryptoLoop w cur rate results [] = results"
| "cryptoLoop w cur rate results (s # rest) =
     cryptoLoop w cur rate (results @ [cryptoItem w cur rate s]) rest"

definition getCryptoPrice :: "world \<Rightarrow> string list \<Rightarrow> string \<Rightarrow> jsnum \<Rightarrow> exn + entry list" where
  "getCryptoPrice w syms cur u =
     (let rate = conversionRate w cur;
          results = cryptoLoop w cur rate [] syms
      in if u \<noteq> Undefined then
           (case filter_under u results of
              Inl e \<Rightarrow> Inl e
            | Inr filtered \<Rightarrow> Inr (if filtered \<noteq> [] then filtered else [NoneUnder u]))
         else Inr results)"

text \<open>
  \<open>getTopCryptos\<close>: the coins of the ranking, each queried as its upper-cased symbol with
  \<open>-USD\<close>; a coin whose quote throws or that has no realtime data is skipped. The whole
  body after the rate lookup is in one \<open>try\<close>, whose \<open>catch\<close> returns an error object.
\<close>

definition topCryptoItem :: "world \<Rightarrow> string \<Rightarrow> real \<Rightarrow> coin \<Rightarrow> entry option" where
  "topCryptoItem w cur rate c =
     (let s = toUpperCase w (coin_symbol c) @ ''-USD'' in
      case quote w s of
        Inl e \<Rightarrow> None
      | Inr q \<Rightarrow>
          (case fetchRealtimeData w s of
             None \<Rightarrow> None
           | Some rtData \<Rightarrow>
               (let price0 = (case snd rtData of [] \<Rightarrow> Undefined | p # ps \<Rightarrow> p);
                    price = (if cur = ''INR'' then times_js (round_double w) price0 rate else price0)
                in case q of
                     None \<Rightarrow> None
                   | Some qd \<Rightarrow>
                       Some (Asset \<lparr>symbol = s,
                                    name = or_string (shortName qd) (coin_name c),
                                    dates = fst rtData,
                                    prices = [price],
                                    history = fetchHistoricalData w s,
                                    change = regularMarketChange qd,
                                    changePercentage = regularMarketChangePercent qd,
                                    marketCap = quoteMarketCap qd,
                                    detailedInfo = None,
                                    news = None\<rparr>))))"

fun topCryptoLoop :: "world \<Rightarrow> string \<Rightarrow> real \<Rightarrow> entry list \<Rightarrow> coin list \<Rightarrow> entry list" where
  "topCryptoLoop w cur rate results [] = results"
| "topCryptoLoop w cur rate results (c # rest) =
     topCryptoLoop w cur rate
       (case topCryptoItem w cur rate c of None \<Rightarrow> results | Some r \<Rightarrow> results @ [r]) rest"

definition no_cryptos :: tool_result where
  "no_cryptos = ErrorObject ''Unable to fetch top cryptos''"

definition getTopCryptos :: "world \<Rightarrow> int \<Rightarrow> string \<Rightarrow> jsnum \<Rightarrow> tool_result" where
  "getTopCryptos w k cur u =
     (let rate = conversionRate w cur in
      case coingecko w k of
        Inl e \<Rightarrow> no_cryptos
      | Inr None \<Rightarrow> no_cryptos
      | Inr (Some coins) \<Rightarrow>
          if coins = [] then no_cryptos
          else
            (let results = topCryptoLoop w cur rate [] coins in
             if u \<noteq> Undefined then
               (case filter_under u results of
                  Inl e \<Rightarrow> no_cryptos
                | Inr filtered \<Rightarrow> Entries (if filtered \<noteq> [] then filtered else [NoneUnder u]))
             else Entries results))"


section \<open>The composite functions and the company information\<close>

definition getCryptoMarketUpdate :: "world \<Rightarrow> int \<Rightarrow> string \<Rightarrow> jsnum \<Rightarrow> tool_result" where
  "getCryptoMarketUpdate w k cur u =
     (let topCryptos = getTopCryptos w k cur u;
          cryptoNews = fetchCryptoMarketNews w
      in MarketUpdate topCryptos (take 5 cryptoNews))"

definition getMarketUpdate :: "world \<Rightarrow> int \<Rightarrow> jsnum \<Rightarrow> exn + tool_result" where
  "getMarketUpdate w k u =
     (case getTopStocks w k u of
        Inl e \<Rightarrow> Inl e
      | Inr topStocks \<Rightarrow> Inr (MarketUpdate topStocks (take 5 (fetchMarketNews w))))"

definition getCompanyInfo :: "world \<Rightarrow> args \<Rightarrow> exn + tool_result" where
  "getCompanyInfo w a =
     (let c0 = or_string (category a) ''all'';
          c = (if c0 = ''subscription'' then ''pricing'' else c0)
      in case findCompany w of
           Inl e \<Rightarrow> Inl e
         | Inr None \<Rightarrow> Inl (Error ''Company information not found in the database.'')
         | Inr (Some companyDoc) \<Rightarrow>
             Inr (if c = ''all'' then CompanyDoc companyDoc
                  else CompanySection c (map_of companyDoc c)))"


section \<open>POST of the chat route\<close>

text \<open>
  The response: the direct answer \<open>{ role, content }\<close>; the narrated answer, which is the
  narration's message with \<open>rawData\<close>, \<open>functionName\<close> and \<open>messageId\<close> added; or the
  error of the top-level \<open>catch\<close>, with status 500 and the details that only a
  development deployment gives.
\<close>

datatype chat_response =
    Answer string string
  | Narrated assistant_message tool_result string string
  | Unavailable "string option"

fun chat_status :: "chat_response \<Rightarrow> nat" where
  "chat_status (Answer r c) = 200"
| "chat_status (Narrated m d f i) = 200"
| "chat_status (Unavailable d) = 500"

fun rawData :: "chat_response \<Rightarrow> tool_result option" where
  "rawData (Narrated m d f i) = Some d"
| "rawData _ = None"

definition unavailable :: "world \<Rightarrow> exn \<Rightarrow> chat_response" where
  "unavailable w e = Unavailable (if development w then Some (message_of e) else None)"

definition fallback :: string where
  "fallback = ''I'm here to help! Could you please clarify your request?''"

text \<open>\<open>JSON.parse(message.function_call.arguments || '{}')\<close>.\<close>

definition no_args :: args where
  "no_args = \<lparr>symbols = None, underPrice = Undefined, limit = None, currency = None, category = None\<rparr>"

definition parse_arguments :: "function_call \<Rightarrow> exn + args" where
  "parse_arguments fc =
     (case arguments fc of
        None \<Rightarrow> Inr no_args
      | Some Malformed \<Rightarrow> Inl (Error ''Unexpected token in JSON'')
      | Some (Parsed a) \<Rightarrow> Inr a)"

text \<open>\<open>args.limit || 2\<close>: zero is falsy.\<close>

definition or_limit :: "int option \<Rightarrow> int" where
  "or_limit l = (case l of None \<Rightarrow> 2 | Some k \<Rightarrow> if k = 0 then 2 else k)"

definition not_iterable :: exn where
  "not_iterable = TypeError ''symbols is not iterable''"

text \<open>
  The \<open>switch\<close> on the function's name. The two batch functions iterate over
  \<open>args.symbols\<close>, which throws when the arguments have none.
\<close>

definition dispatch :: "world \<Rightarrow> string \<Rightarrow> args \<Rightarrow> exn + tool_result" where
  "dispatch w functionName a =
     (if functionName = ''get_stock_price'' then
        (case symbols a of
           None \<Rightarrow> Inl not_iterable
         | Some syms \<Rightarrow>
             (case getStockPrice w syms (underPrice a) of
                Inl e \<Rightarrow> Inl e
              | Inr rs \<Rightarrow> Inr (Entries rs)))
      else if functionName = ''get_top_stocks'' then
        getTopStocks w (or_limit (limit a)) (underPrice a)
      else if functionName = ''get_crypto_price'' then
        (case symbols a of
           None \<Rightarrow> Inl not_iterable
         | Some syms \<Rightarrow>
             (case getCryptoPrice w syms (or_string (currency a) ''USD'') (underPrice a) of
                Inl e \<Rightarrow> Inl e
              | Inr rs \<Rightarrow> Inr (Entries rs)))
      else if functionName = ''get_top_cryptos'' then
        Inr (getTopCryptos w (or_limit (limit a)) (or_string (currency a) ''USD'') (underPrice a))
      else if functionName = ''get_company_info'' then
        getCompanyInfo w a
      else if functionName = ''get_market_update'' then
        getMarketUpdate w (or_limit (limit a)) (underPrice a)
      else if functionName = ''get_crypto_market_update'' then
        Inr (getCryptoMarketUpdate w (or_limit (limit a)) (or_string (currency a) ''USD'')
               (underPrice a))
      else Inr (ErrorObject ''Function not supported''))"

text \<open>The names of the \<open>case\<close> labels of the \<open>switch\<close>.\<close>

definition dispatch_table :: "string list" where
  "dispatch_table =
     [''get_stock_price'', ''get_top_stocks'', ''get_crypto_price'', ''get_top_cryptos'',
      ''get_company_info'', ''get_market_update'', ''get_crypto_market_update'']"

text \<open>The content of the last message of role \<open>user\<close>, or the empty string.\<close>

definition lastUserMessage :: "message list \<Rightarrow> string option" where
  "lastUserMessage messages =
     (let userMessages = filter (\<lambda>msg. role msg = ''user'') messages
      in if userMessages \<noteq> [] then content (last userMessages) else Some [])"

definition logItem :: "world \<Rightarrow> message list \<Rightarrow> assistant_message \<Rightarrow> log_item" where
  "logItem w messages final =
     \<lparr>logMessageId = uuidv4 w,
      timestamp = now w,
      userQuery = lastUserMessage messages,
      chatbotResponse = content final,
      actions = [''like'' \<mapsto> BOOL False, ''dislike'' \<mapsto> BOOL False,
                 ''report'' \<mapsto> BOOL False, ''reportMessage'' \<mapsto> S []]\<rparr>"

text \<open>
  \<open>POST\<close>, parametric in what the \<open>PutCommand\<close> does to the store. Every exception
  outside the write of the log reaches the top-level \<open>catch\<close>; the write of the log has
  its own, which only reports.
\<close>

definition POST ::
  "('db \<Rightarrow> log_item \<Rightarrow> exn + 'db) \<Rightarrow> world \<Rightarrow> 'db \<Rightarrow> exn + message list \<Rightarrow> chat_response \<times> 'db" where
  "POST put w db request_json =
     (case request_json of
        Inl e \<Rightarrow> (unavailable w e, db)
      | Inr messages \<Rightarrow>
          (case create w (Decide messages) of
             Inl e \<Rightarrow> (unavailable w e, db)
           | Inr msg \<Rightarrow>
               (case function_call msg of
                  None \<Rightarrow> (Answer ''assistant'' (or_string (content msg) fallback), db)
                | Some fc \<Rightarrow>
                    (let functionName = call_name fc in
                     case parse_arguments fc of
                       Inl e \<Rightarrow> (unavailable w e, db)
                     | Inr a \<Rightarrow>
                         (case dispatch w functionName a of
                            Inl e \<Rightarrow> (unavailable w e, db)
                          | Inr functionResponse \<Rightarrow>
                              (case create w
                                      (if functionName = ''get_company_info''
                                       then NarrateCompany messages functionResponse
                                       else NarrateUpdate messages functionResponse) of
                                 Inl e \<Rightarrow> (unavailable w e, db)
                               | Inr final \<Rightarrow>
                                   (Narrated final functionResponse functionName (uuidv4 w),
                                    (case put db (logItem w messages final) of
                                       Inl e \<Rightarrow> db
                                     | Inr db' \<Rightarrow> db'))))))))"


section \<open>Notions of the properties\<close>

text \<open>
  The fetch of an item of \<open>getStockPrice\<close> fails when the quote of its ticker throws or
  gives nothing. An entry carries an error marker when it is the object
  \<open>{ symbol, error }\<close>; it carries the data of the quote when it is an asset whose price,
  changes and market capitalisation are those of the quote of its symbol.
\<close>

definition fetch_fails :: "world \<Rightarrow> string \<Rightarrow> bool" where
  "fetch_fails w s =
     (case quote w (normalizeEquity s) of
        Inl e \<Rightarrow> True
      | Inr None \<Rightarrow> True
      | Inr (Some q) \<Rightarrow> False)"

fun is_error :: "entry \<Rightarrow> bool" where
  "is_error (Failed s e) = True"
| "is_error (Asset a) = False"
| "is_error (NoneUnder u) = False"

definition quoted :: "world \<Rightarrow> entry \<Rightarrow> bool" where
  "quoted w r =
     (case r of
        Asset a \<Rightarrow>
          (case quote w (symbol a) of
             Inl e \<Rightarrow> False
           | Inr None \<Rightarrow> False
           | Inr (Some q) \<Rightarrow>
               prices a = [regularMarketPrice q] \<and> change a = regularMarketChange q
               \<and> changePercentage a = regularMarketChangePercent q
               \<and> marketCap a = quoteMarketCap q)
      | Failed s e \<Rightarrow> False
      | NoneUnder u \<Rightarrow> False)"


fun unconverted :: "jsnum \<Rightarrow> jsnum" where
  "unconverted (Num p) = Num p"
| "unconverted Undefined = NaN"
| "unconverted NaN = NaN"

fun at_rate_1 :: "entry \<Rightarrow> entry" where
  "at_rate_1 (Asset a) = Asset (a\<lparr>prices := map unconverted (prices a)\<rparr>)"
| "at_rate_1 (Failed s e) = Failed s e"
| "at_rate_1 (NoneUnder u) = NoneUnder u"








text \<open>
  A world for the examples: the provider knows \<open>TCS.NS\<close> and \<open>BTC-USD\<close> and throws on every
  other ticker, \<open>USDINR=X\<close> included; the model's first answer is a parameter. Its symbols
  are of the letters \<open>a\<close> to \<open>z\<close>, which \<open>ascii_upper\<close> maps as \<open>toUpperCase\<close> does, and its
  numbers are doubles.
\<close>

definition ascii_upper :: "string \<Rightarrow> string" where
  "ascii_upper s =
     map (\<lambda>c. if (97::nat) \<le> of_char c \<and> of_char c \<le> (122::nat)
              then char_of (of_char c - (32::nat)) else c) s"

definition tcs_quote :: quote_data where
  "tcs_quote =
     \<lparr>regularMarketPrice = Num 3500, longName = Some ''Tata Consultancy Services'',
      shortName = Some ''TCS'', regularMarketChange = Num 12,
      regularMarketChangePercent = Num 1, quoteMarketCap = Num 1000000\<rparr>"

definition btc_quote :: quote_data where
  "btc_quote =
     \<lparr>regularMarketPrice = Num 97000, longName = None,
      shortName = Some ''Bitcoin USD'', regularMarketChange = Num 150,
      regularMarketChangePercent = Num 2, quoteMarketCap = Num 2000000\<rparr>"

definition narration :: assistant_message where
  "narration =
     \<lparr>role = ''assistant'', content = Some ''Here is the update.'', function_call = None\<rparr>"

definition silent :: assistant_message where
  "silent = \<lparr>role = ''assistant'', content = None, function_call = None\<rparr>"

definition demo :: "assistant_message \<Rightarrow> world" where
  "demo decision =
     \<lparr>quote = (\<lambda>t. if t = ''TCS.NS'' then Inr (Some tcs_quote)
                    else if t = ''BTC-USD'' then Inr (Some btc_quote)
                    else Inl (Error ''Quote not found'')),
      historical = (\<lambda>t. Inr []),
      quoteSummary = (\<lambda>t. Inl (Error ''No summary'')),
      search = (\<lambda>t. Inr None),
      nse_home = Inr None,
      nse_gainers = (\<lambda>c. Inr (Some [''TCS''])),
      coingecko = (\<lambda>k. Inr (Some [\<lparr>coin_symbol = ''btc'', coin_name = ''Bitcoin''\<rparr>])),
      findCompany = Inr None,
      create = (\<lambda>r. case r of
                       Decide ms \<Rightarrow> Inr decision
                     | NarrateCompany ms d \<Rightarrow> Inr narration
                     | NarrateUpdate ms d \<Rightarrow> Inr narration),
      now = ''2025-02-06T05:00:00.000Z'',
      uuidv4 = ''id-1'',
      development = False,
      toUpperCase = ascii_upper,
      round_double = (\<lambda>x. x)\<rparr>"

text \<open>
  A first answer that calls a function with an argument blob that is not JSON, and a
  world whose narration requests throw.
\<close>

definition garbled :: "string \<Rightarrow> assistant_message" where
  "garbled f =
     \<lparr>role = ''assistant'', content = None,
      function_call = Some \<lparr>call_name = f, arguments = Some Malformed\<rparr>\<rparr>"

definition narration_down :: "world \<Rightarrow> world" where
  "narration_down w =
     w\<lparr>create := (\<lambda>r. case r of
                          Decide ms \<Rightarrow> create w (Decide ms)
                        | NarrateCompany ms d \<Rightarrow> Inl (Error ''Service unavailable'')
                        | NarrateUpdate ms d \<Rightarrow> Inl (Error ''Service unavailable''))\<rparr>"

definition ask :: "string \<Rightarrow> message list" where
  "ask q = [\<lparr>role = ''user'', content = Some q\<rparr>]"

definition calls :: "string \<Rightarrow> args \<Rightarrow> assistant_message" where
  "calls f a =
     \<lparr>role = ''assistant'', content = None,
      function_call = Some \<lparr>call_name = f, arguments = Some (Parsed a)\<rparr>\<rparr>"


section \<open>Normalisation: proofs\<close>

lemma includes_single: "includes_str s [c] \<longleftrightarrow> c \<in> set s"
  by (induction s) auto

lemma is_AZ_alphabet: "is_AZ c \<longleftrightarrow> c \<in> set ''ABCDEFGHIJKLMNOPQRSTUVWXYZ''"
proof
  assume a: "is_AZ c"
  have "(of_char c :: nat) \<in> of_char ` set ''ABCDEFGHIJKLMNOPQRSTUVWXYZ''"
    using a by (simp add: is_AZ_def) arith
  then show "c \<in> set ''ABCDEFGHIJKLMNOPQRSTUVWXYZ''"
    by (simp only: inj_image_mem_iff [OF inj_of_char])
next
  assume "c \<in> set ''ABCDEFGHIJKLMNOPQRSTUVWXYZ''"
  then show "is_AZ c" by (auto simp: is_AZ_def)
qed

lemma test_AZ_plus_iff: "test_AZ_plus s \<longleftrightarrow> s \<noteq> [] \<and> list_all is_AZ s"
  by (induction s rule: test_AZ_plus.induct) auto

lemma all_AZ_alphabet: "list_all is_AZ s \<longleftrightarrow> set s \<subseteq> set ''ABCDEFGHIJKLMNOPQRSTUVWXYZ''"
proof -
  have "is_AZ = (\<lambda>c. c \<in> set ''ABCDEFGHIJKLMNOPQRSTUVWXYZ'')"
    by (rule ext) (rule is_AZ_alphabet)
  then show ?thesis by (simp only: list_all_iff subset_eq)
qed

lemma normalizeEquity_char:
  "normalizeEquity s =
     (if s \<noteq> [] \<and> set s \<subseteq> set ''ABCDEFGHIJKLMNOPQRSTUVWXYZ'' \<and> CHR ''.'' \<notin> set s
      then s @ ''.NS'' else s)"
  by (simp only: normalizeEquity_def includes_single test_AZ_plus_iff all_AZ_alphabet conj_ac)

lemma normalizeCrypto_char:
  "normalizeCrypto s = (if CHR ''-'' \<in> set s then s else s @ ''-USD'')"
  by (simp add: normalizeCrypto_def includes_single)

text \<open>
  C5. Both normalisations are total functions of the symbol alone. The equity symbol
  gets the suffix \<open>.NS\<close> exactly when it is one or more letters \<open>A\<close> to \<open>Z\<close> (which is what
  the test \<open>/^[A-Z]+$/\<close> accepts as consisting only of uppercase letters) and has no \<open>.\<close>;
  every other symbol is returned unchanged. The crypto symbol gets the suffix \<open>-USD\<close>
  exactly when it has no \<open>-\<close>.
\<close>

theorem normalize_symbols:
  "normalizeEquity s =
     (if s \<noteq> [] \<and> set s \<subseteq> set ''ABCDEFGHIJKLMNOPQRSTUVWXYZ'' \<and> CHR ''.'' \<notin> set s
      then s @ ''.NS'' else s)
   \<and> normalizeCrypto s = (if CHR ''-'' \<in> set s then s else s @ ''-USD'')"
  using normalizeEquity_char [of s] normalizeCrypto_char [of s] by (rule conjI)

theorem normalize_symbols_witness:
  "normalizeEquity ''TCS'' = ''TCS.NS'' \<and> normalizeEquity ''AAPL.O'' = ''AAPL.O''
   \<and> normalizeCrypto ''BTC'' = ''BTC-USD''"
  using normalize_symbols [of "''TCS''"] normalize_symbols [of "''AAPL.O''"]
    normalize_symbols [of "''BTC''"]
  by simp


section \<open>The feedback route: proofs\<close>

lemma update_like:
  "t mid = Some it \<Longrightarrow>
   ddb_update t (updateCommand \<lparr>messageId = mid, action = ''like'', reportMessage = rm\<rparr>) =
     Inr (t(mid \<mapsto> it\<lparr>actions := (actions it)(''like'' \<mapsto> BOOL True, ''dislike'' \<mapsto> BOOL False)\<rparr>))"
  by (simp add: ddb_update_def updateCommand_def resolve_clause_def)

lemma update_dislike:
  "t mid = Some it \<Longrightarrow>
   ddb_update t (updateCommand \<lparr>messageId = mid, action = ''dislike'', reportMessage = rm\<rparr>) =
     Inr (t(mid \<mapsto> it\<lparr>actions := (actions it)(''dislike'' \<mapsto> BOOL True, ''like'' \<mapsto> BOOL False)\<rparr>))"
  by (simp add: ddb_update_def updateCommand_def resolve_clause_def)

lemma update_report:
  "t mid = Some it \<Longrightarrow>
   ddb_update t (updateCommand \<lparr>messageId = mid, action = ''report'', reportMessage = rm\<rparr>) =
     Inr (t(mid \<mapsto> it\<lparr>actions := (actions it)(''report'' \<mapsto> BOOL True,
            ''reportMessage'' \<mapsto> S (report_text rm))\<rparr>))"
  by (simp add: ddb_update_def updateCommand_def resolve_clause_def)

lemma update_absent:
  "t (messageId b) = None \<Longrightarrow> action b \<in> set [''like'', ''dislike'', ''report''] \<Longrightarrow>
   ddb_update t (updateCommand b) = Inl invalid_path"
  by (auto simp add: ddb_update_def updateCommand_def resolve_clause_def)

lemma PUT_status: "status (fst (PUT send db r)) \<in> {200, 400, 500}"
  by (simp add: PUT_def failed_update_def split: sum.splits)

lemma apply_like:
  "t mid = Some it \<Longrightarrow> applyFeedback t mid ''like'' rm =
     t(mid \<mapsto> it\<lparr>actions := (actions it)(''like'' \<mapsto> BOOL True, ''dislike'' \<mapsto> BOOL False)\<rparr>)"
  by (simp add: applyFeedback_def PUT_def update_like)

lemma apply_dislike:
  "t mid = Some it \<Longrightarrow> applyFeedback t mid ''dislike'' rm =
     t(mid \<mapsto> it\<lparr>actions := (actions it)(''dislike'' \<mapsto> BOOL True, ''like'' \<mapsto> BOOL False)\<rparr>)"
  by (simp add: applyFeedback_def PUT_def update_dislike)

lemma apply_report:
  "t mid = Some it \<Longrightarrow> applyFeedback t mid ''report'' rm =
     t(mid \<mapsto> it\<lparr>actions := (actions it)(''report'' \<mapsto> BOOL True,
            ''reportMessage'' \<mapsto> S (report_text rm))\<rparr>)"
  by (simp add: applyFeedback_def PUT_def update_report)

lemma apply_invalid:
  "a \<notin> set [''like'', ''dislike'', ''report''] \<Longrightarrow> applyFeedback t mid a rm = t"
  by (simp add: applyFeedback_def PUT_def)

lemma apply_absent: "t mid = None \<Longrightarrow> applyFeedback t mid a rm = t"
proof (cases "a \<in> set [''like'', ''dislike'', ''report'']")
  case True
  assume "t mid = None"
  then have "ddb_update t (updateCommand \<lparr>messageId = mid, action = a, reportMessage = rm\<rparr>)
               = Inl invalid_path"
    using True by (intro update_absent) simp_all
  then show ?thesis using True by (simp add: applyFeedback_def PUT_def)
next
  case False
  then show ?thesis by (rule apply_invalid)
qed

lemma apply_exclusive:
  assumes "exclusive t mid"
  shows "exclusive (applyFeedback t mid a rm) mid"
proof (cases "t mid")
  case None
  then show ?thesis using assms by (simp add: apply_absent)
next
  case (Some it)
  consider "a = ''like''" | "a = ''dislike''" | "a = ''report''"
    | "a \<notin> set [''like'', ''dislike'', ''report'']" by auto
  then show ?thesis
  proof cases
    case 1 then show ?thesis using Some by (simp add: apply_like exclusive_def flag_def)
  next
    case 2 then show ?thesis using Some by (simp add: apply_dislike exclusive_def flag_def)
  next
    case 3 then show ?thesis using Some assms by (simp add: apply_report exclusive_def flag_def)
  next
    case 4
    then have "applyFeedback t mid a rm = t" by (rule apply_invalid)
    then show ?thesis using assms by simp
  qed
qed

lemma applyFeedbacks_exclusive:
  "exclusive t mid \<Longrightarrow> exclusive (applyFeedbacks t mid ops) mid"
  by (induction ops arbitrary: t) (simp_all add: apply_exclusive)

text \<open>
  C4. On every record of the log, a feedback \<open>like\<close> sets \<open>like\<close> to true and \<open>dislike\<close> to
  false, a feedback \<open>dislike\<close> sets \<open>dislike\<close> to true and \<open>like\<close> to false, and \<open>like\<close>
  followed by \<open>dislike\<close> leaves \<open>like\<close> false and \<open>dislike\<close> true. Through every sequence of
  feedback requests on the record (whatever their actions and report messages) the
  two flags stay exclusive if they were; they are exclusive in the record the chat
  route writes, and so after every sequence of feedback requests on it.
\<close>

theorem feedback_like_dislike_exclusive:
  assumes "t mid \<noteq> None"
  shows "flag (applyFeedback t mid ''like'' rm) mid ''like'' = Some (BOOL True)
       \<and> flag (applyFeedback t mid ''like'' rm) mid ''dislike'' = Some (BOOL False)
       \<and> flag (applyFeedback t mid ''dislike'' rm) mid ''dislike'' = Some (BOOL True)
       \<and> flag (applyFeedback t mid ''dislike'' rm) mid ''like'' = Some (BOOL False)
       \<and> flag (applyFeedback (applyFeedback t mid ''like'' rm) mid ''dislike'' rm') mid ''like''
           = Some (BOOL False)
       \<and> flag (applyFeedback (applyFeedback t mid ''like'' rm) mid ''dislike'' rm') mid ''dislike''
           = Some (BOOL True)
       \<and> (exclusive t mid \<longrightarrow> exclusive (applyFeedbacks t mid ops) mid)
       \<and> exclusive (applyFeedbacks (t(mid \<mapsto> logItem w messages final)) mid ops) mid"
proof -
  obtain it where it: "t mid = Some it" using assms by blast
  let ?t1 = "applyFeedback t mid ''like'' rm"
  have t1: "?t1 mid
          = Some (it\<lparr>actions := (actions it)(''like'' \<mapsto> BOOL True, ''dislike'' \<mapsto> BOOL False)\<rparr>)"
    using it by (simp add: apply_like)
  have "flag ?t1 mid ''like'' = Some (BOOL True)" "flag ?t1 mid ''dislike'' = Some (BOOL False)"
    by (simp_all add: flag_def t1)
  moreover have "flag (applyFeedback t mid ''dislike'' rm) mid ''dislike'' = Some (BOOL True)"
    "flag (applyFeedback t mid ''dislike'' rm) mid ''like'' = Some (BOOL False)"
    using it by (simp_all add: flag_def apply_dislike)
  moreover have "flag (applyFeedback ?t1 mid ''dislike'' rm') mid ''like'' = Some (BOOL False)"
    "flag (applyFeedback ?t1 mid ''dislike'' rm') mid ''dislike'' = Some (BOOL True)"
    using apply_dislike [of ?t1 mid _ rm'] t1 by (simp_all add: flag_def)
  moreover have "exclusive t mid \<longrightarrow> exclusive (applyFeedbacks t mid ops) mid"
    by (simp add: applyFeedbacks_exclusive)
  moreover have "exclusive (t(mid \<mapsto> logItem w messages final)) mid"
    by (simp add: exclusive_def flag_def logItem_def)
  then have "exclusive (applyFeedbacks (t(mid \<mapsto> logItem w messages final)) mid ops) mid"
    by (rule applyFeedbacks_exclusive)
  ultimately show ?thesis by simp
qed

theorem feedback_like_dislike_exclusive_witness:
  "demo_table ''m-0'' \<noteq> None \<and> exclusive demo_table ''m-0''
   \<and> flag (applyFeedback (applyFeedback demo_table ''m-0'' ''like'' None) ''m-0'' ''dislike'' None)
        ''m-0'' ''like'' = Some (BOOL False)
   \<and> flag (applyFeedback (applyFeedback demo_table ''m-0'' ''like'' None) ''m-0'' ''dislike'' None)
        ''m-0'' ''dislike'' = Some (BOOL True)
   \<and> exclusive (applyFeedbacks demo_table ''m-0''
        [(''like'', None), (''report'', Some ''wrong price''), (''dislike'', None)]) ''m-0''"
proof -
  have h: "demo_table ''m-0'' \<noteq> None" by (simp add: demo_table_def)
  have e: "exclusive demo_table ''m-0''"
    by (simp add: exclusive_def flag_def demo_table_def demo_item_def)
  show ?thesis
    using h e
      feedback_like_dislike_exclusive [where t = demo_table and mid = "''m-0''" and rm = None
        and rm' = None
        and ops = "[(''like'', None), (''report'', Some ''wrong price''), (''dislike'', None)]"]
    by simp
qed

text \<open>
  C3, as the code has it. The route has no response for an unknown record: its
  responses have status 200, 400 or 500, whatever the store does. For a \<open>messageId\<close>
  with no record in the table, the one update it sends is rejected by the store, the
  response is the failure of the \<open>catch\<close> (status 500, \<open>Failed to update feedback\<close>) and
  the table is unchanged: no record is created or modified.
\<close>

theorem PUT_unknown_messageId:
  assumes "t mid = None" and "a \<in> set [''like'', ''dislike'', ''report'']"
  shows "PUT ddb_update t (Inr \<lparr>messageId = mid, action = a, reportMessage = rm\<rparr>)
           = (failed_update invalid_path, t)
       \<and> status (failed_update invalid_path) = 500
       \<and> status (fst (PUT send db r)) \<in> {200, 400, 500}"
proof (intro conjI)
  have "ddb_update t (updateCommand \<lparr>messageId = mid, action = a, reportMessage = rm\<rparr>)
          = Inl invalid_path"
    using assms by (intro update_absent) simp_all
  then show "PUT ddb_update t (Inr \<lparr>messageId = mid, action = a, reportMessage = rm\<rparr>)
           = (failed_update invalid_path, t)"
    using assms(2) by (simp add: PUT_def)
  show "status (failed_update invalid_path) = 500" by (simp add: failed_update_def)
  show "status (fst (PUT send db r)) \<in> {200, 400, 500}" by (rule PUT_status)
qed

theorem PUT_unknown_messageId_witness:
  "demo_table ''m-1'' = None
   \<and> PUT ddb_update demo_table
        (Inr \<lparr>messageId = ''m-1'', action = ''report'', reportMessage = Some ''wrong price''\<rparr>)
       = (failed_update invalid_path, demo_table)"
proof -
  have h: "demo_table ''m-1'' = None" by (simp add: demo_table_def)
  have a: "''report'' \<in> set [''like'', ''dislike'', ''report'']" by simp
  show ?thesis
    using h a
      PUT_unknown_messageId [where t = demo_table and mid = "''m-1''" and a = "''report''"
        and rm = "Some ''wrong price''" and send = ddb_update and db = demo_table
        and r = "Inl (Error [])"]
    by simp
qed

text \<open>
  The claim C3 as stated fails: the update of a record that does not exist, in the
  empty table, is answered with status 500, not with a NotFound (404).
\<close>

theorem PUT_unknown_messageId_counterexample:
  "status (fst (PUT ddb_update Map.empty
      (Inr \<lparr>messageId = ''m-1'', action = ''like'', reportMessage = None\<rparr>))) = 500
   \<and> status (fst (PUT ddb_update Map.empty
      (Inr \<lparr>messageId = ''m-1'', action = ''like'', reportMessage = None\<rparr>))) \<noteq> 404"
  by (simp add: PUT_def ddb_update_def updateCommand_def resolve_clause_def failed_update_def)


section \<open>getStockPrice: proofs\<close>

lemma stockLoop_map: "stockLoop w results syms = results @ map (stockItem w) syms"
  by (induction syms arbitrary: results) simp_all

lemma stockItem_fails: "fetch_fails w s \<Longrightarrow> \<exists>e. stockItem w s = Failed s e"
  by (auto simp: fetch_fails_def stockItem_def fetchRealtimeData_def Let_def split: sum.splits option.splits)

lemma stockItem_ok:
  assumes "\<not> fetch_fails w s"
  shows "\<exists>a. stockItem w s = Asset a \<and> symbol a = normalizeEquity s \<and> quoted w (Asset a)"
proof -
  obtain q where q: "quote w (normalizeEquity s) = Inr (Some q)"
    using assms by (auto simp: fetch_fails_def split: sum.splits option.splits)
  obtain a where a: "stockItem w s = Asset a"
    by (simp add: stockItem_def fetchRealtimeData_def q Let_def)
  have "symbol a = normalizeEquity s"
    using a by (auto simp: stockItem_def fetchRealtimeData_def q Let_def)
  moreover from this have "quoted w (Asset a)"
    using a by (auto simp: stockItem_def fetchRealtimeData_def q quoted_def Let_def)
  ultimately show ?thesis using a by blast
qed

lemma is_error_stockItem: "is_error (stockItem w s) = fetch_fails w s"
  using stockItem_fails [of w s] stockItem_ok [of w s] by (cases "fetch_fails w s") auto

lemma filter_is_error_map:
  "length (filter is_error (map (stockItem w) syms)) = length (filter (fetch_fails w) syms)"
  by (induction syms) (simp_all add: is_error_stockItem)

text \<open>
  When no \<open>underPrice\<close> is given, \<open>getStockPrice\<close> returns one entry per symbol, in the
  order of the symbols: for a symbol whose fetch fails, an error marker carrying that
  symbol; for every other symbol, an asset under its normalised symbol with the data
  of its quote. So the entries with an error marker are as many as the symbols whose
  fetch fails: exactly one when exactly one fails.
\<close>

lemma getStockPrice_unfiltered:
  "\<exists>rs. getStockPrice w syms Undefined = Inr rs \<and> length rs = length syms
     \<and> (\<forall>i<length syms.
           if fetch_fails w (syms ! i) then (\<exists>e. rs ! i = Failed (syms ! i) e)
           else (\<exists>a. rs ! i = Asset a \<and> symbol a = normalizeEquity (syms ! i) \<and> quoted w (rs ! i)))
     \<and> length (filter is_error rs) = length (filter (fetch_fails w) syms)"
proof -
  let ?rs = "map (stockItem w) syms"
  have 1: "getStockPrice w syms Undefined = Inr ?rs"
    by (simp add: getStockPrice_def stockLoop_map)
  have 2: "\<forall>i<length syms.
           if fetch_fails w (syms ! i) then (\<exists>e. ?rs ! i = Failed (syms ! i) e)
           else (\<exists>a. ?rs ! i = Asset a \<and> symbol a = normalizeEquity (syms ! i) \<and> quoted w (?rs ! i))"
  proof (intro allI impI)
    fix i
    assume "i < length syms"
    then have i: "?rs ! i = stockItem w (syms ! i)" by simp
    show "if fetch_fails w (syms ! i) then (\<exists>e. ?rs ! i = Failed (syms ! i) e)
          else (\<exists>a. ?rs ! i = Asset a \<and> symbol a = normalizeEquity (syms ! i) \<and> quoted w (?rs ! i))"
    proof (cases "fetch_fails w (syms ! i)")
      case True
      then show ?thesis using stockItem_fails [of w "syms ! i"] i by simp
    next
      case False
      then obtain a where "stockItem w (syms ! i) = Asset a"
        and "symbol a = normalizeEquity (syms ! i)" and "quoted w (Asset a)"
        using stockItem_ok [of w "syms ! i"] by blast
      then show ?thesis using False i by simp
    qed
  qed
  show ?thesis using 1 2 filter_is_error_map [of w syms] by simp
qed

lemma prices0_error: "is_error r \<Longrightarrow> prices0 r = Inl no_prices"
  by (cases r) simp_all

lemma prices0_Inl: "prices0 r = Inl e \<Longrightarrow> e = no_prices"
  by (cases r) auto

lemma filter_under_Inl: "filter_under u rs = Inl e \<Longrightarrow> e = no_prices"
  by (induction rs arbitrary: e) (auto split: sum.splits dest: prices0_Inl)

lemma filter_under_error:
  "\<exists>r\<in>set rs. is_error r \<Longrightarrow> filter_under u rs = Inl no_prices"
proof (induction rs)
  case Nil
  then show ?case by simp
next
  case (Cons r rs)
  show ?case
  proof (cases "prices0 r")
    case (Inl e)
    then show ?thesis using prices0_Inl [OF Inl] by simp
  next
    case (Inr p)
    then have "\<not> is_error r" using prices0_error [of r] by auto
    then have "\<exists>r\<in>set rs. is_error r" using Cons.prems by simp
    then have "filter_under u rs = Inl no_prices" by (rule Cons.IH)
    then show ?thesis using Inr by simp
  qed
qed

lemma getStockPrice_throws:
  assumes "u \<noteq> Undefined" and "\<exists>s\<in>set syms. fetch_fails w s"
  shows "getStockPrice w syms u = Inl no_prices"
proof -
  have "\<exists>r\<in>set (map (stockItem w) syms). is_error r"
    using assms(2) by (auto simp: is_error_stockItem simp del: is_error.simps)
  then show ?thesis using assms(1) by (simp add: getStockPrice_def stockLoop_map filter_under_error)
qed

text \<open>
  C9. When \<open>underPrice\<close> is given and the fetch of at least one symbol failed, the results
  hold an error marker, on which \<open>r.prices[0]\<close> throws; \<open>getStockPrice\<close> throws that
  \<open>TypeError\<close> instead of returning a filtered batch, and a request whose function call is
  \<open>get_stock_price\<close> with these arguments is answered with the error of the top-level
  \<open>catch\<close> (status 500), the log unchanged.
\<close>

theorem getStockPrice_filter_throws:
  assumes "u \<noteq> Undefined" and "\<exists>s\<in>set syms. fetch_fails w s"
  shows "(\<exists>s\<in>set syms. \<exists>e. Failed s e \<in> set (stockLoop w [] syms) \<and> prices0 (Failed s e) = Inl no_prices)
       \<and> getStockPrice w syms u = Inl no_prices
       \<and> (create w (Decide messages) = Inr msg \<and> function_call msg = Some fc
            \<and> call_name fc = ''get_stock_price'' \<and> parse_arguments fc = Inr a
            \<and> symbols a = Some syms \<and> underPrice a = u
          \<longrightarrow> POST put w db (Inr messages) = (unavailable w no_prices, db)
              \<and> chat_status (unavailable w no_prices) = 500)"
proof (intro conjI impI)
  obtain s where s: "s \<in> set syms" "fetch_fails w s" using assms(2) by blast
  obtain e where "stockItem w s = Failed s e" using stockItem_fails [OF s(2)] by blast
  then have "Failed s e \<in> set (stockLoop w [] syms)" using s(1) by (force simp: stockLoop_map)
  then show "\<exists>s\<in>set syms. \<exists>e. Failed s e \<in> set (stockLoop w [] syms) \<and> prices0 (Failed s e) = Inl no_prices"
    using s(1) by auto
  show g: "getStockPrice w syms u = Inl no_prices" using assms by (rule getStockPrice_throws)
  show "chat_status (unavailable w no_prices) = 500" by (simp add: unavailable_def)
  assume "create w (Decide messages) = Inr msg \<and> function_call msg = Some fc
            \<and> call_name fc = ''get_stock_price'' \<and> parse_arguments fc = Inr a
            \<and> symbols a = Some syms \<and> underPrice a = u"
  then show "POST put w db (Inr messages) = (unavailable w no_prices, db)"
    using g by (simp add: POST_def dispatch_def)
qed

lemma demo_quote:
  "quote (demo d) t = (if t = ''TCS.NS'' then Inr (Some tcs_quote)
                       else if t = ''BTC-USD'' then Inr (Some btc_quote)
                       else Inl (Error ''Quote not found''))"
  by (simp add: demo_def)

lemma normalize_TCS: "normalizeEquity ''TCS'' = ''TCS.NS''"
  by (simp add: normalizeEquity_def is_AZ_def)

lemma normalize_BAD: "normalizeEquity ''BAD'' = ''BAD.NS''"
  by (simp add: normalizeEquity_def is_AZ_def)

lemma normalize_BTC: "normalizeCrypto ''BTC'' = ''BTC-USD''"
  by (simp add: normalizeCrypto_def)

lemma demo_fetch_TCS: "\<not> fetch_fails (demo d) ''TCS''"
  by (simp add: fetch_fails_def normalize_TCS demo_quote)

lemma demo_fetch_BAD: "fetch_fails (demo d) ''BAD''"
  by (simp add: fetch_fails_def normalize_BAD demo_quote)

lemma demo_stock_BAD: "stockItem (demo d) ''BAD'' = Failed ''BAD'' ''Unable to fetch data''"
  by (simp add: stockItem_def normalize_BAD demo_quote)

lemma demo_stock_TCS:
  "\<exists>a. stockItem (demo d) ''TCS'' = Asset a \<and> symbol a = ''TCS.NS'' \<and> prices a = [Num 3500]"
  by (simp add: stockItem_def normalize_TCS demo_quote fetchRealtimeData_def Let_def tcs_quote_def)

lemma demo_crypto_BTC:
  "\<exists>a. cryptoItem (demo d) ''USD'' 1 ''BTC'' = Asset a \<and> symbol a = ''BTC-USD''
       \<and> prices a = [Num 97000]"
  by (simp add: cryptoItem_def normalize_BTC demo_quote fetchRealtimeData_def Let_def btc_quote_def)

lemma getStockPrice_unfiltered_example:
  "length (filter (fetch_fails (demo narration)) [''TCS'', ''BAD'']) = 1
   \<and> (\<exists>a. getStockPrice (demo narration) [''TCS'', ''BAD''] Undefined
             = Inr [Asset a, Failed ''BAD'' ''Unable to fetch data'']
          \<and> symbol a = ''TCS.NS'' \<and> prices a = [Num 3500])"
  using getStockPrice_unfiltered [of "demo narration" "[''TCS'', ''BAD'']"]
    demo_stock_TCS [of narration]
  by (auto simp add: demo_fetch_TCS demo_fetch_BAD getStockPrice_def demo_stock_BAD)

text \<open>
  C1 at a failing input. Of the two symbols exactly one fails, and the loop isolates the
  failure: its results are the asset of \<open>TCS.NS\<close>, whose price 3500 is under the ceiling,
  and the error marker of \<open>BAD\<close>. With the ceiling 5000 given, the price filter reads
  \<open>prices[0]\<close> of the marker and throws: the one failing symbol aborts the batch, where
  two entries were to be returned.
\<close>

theorem getStockPrice_one_failure_aborts:
  "length (filter (fetch_fails (demo narration)) [''TCS'', ''BAD'']) = 1
   \<and> (\<exists>a. stockLoop (demo narration) [] [''TCS'', ''BAD'']
             = [Asset a, Failed ''BAD'' ''Unable to fetch data'']
          \<and> symbol a = ''TCS.NS'' \<and> prices a = [Num 3500] \<and> less_js (Num 3500) (Num 5000))
   \<and> getStockPrice (demo narration) [''TCS'', ''BAD''] (Num 5000) = Inl no_prices"
  using demo_stock_TCS [of narration]
  by (auto simp add: demo_fetch_TCS demo_fetch_BAD getStockPrice_def demo_stock_BAD)

lemma demo_upper: "toUpperCase (demo d) ''btc'' = ''BTC''"
proof -
  have "ascii_upper ''btc'' = ''BTC''" by code_simp
  then show ?thesis by (simp add: demo_def)
qed

lemma demo_top_stock:
  "\<exists>a. topStockItem (demo d) ''TCS.NS'' = Some (Asset a) \<and> prices a = [Num 3500]"
  by (simp add: topStockItem_def demo_quote fetchRealtimeData_def tcs_quote_def)

lemma demo_top_crypto:
  "\<exists>a. topCryptoItem (demo d) ''USD'' 1 \<lparr>coin_symbol = ''btc'', coin_name = ''Bitcoin''\<rparr>
          = Some (Asset a) \<and> prices a = [Num 97000]"
  by (simp add: topCryptoItem_def demo_upper demo_quote fetchRealtimeData_def btc_quote_def Let_def)

lemma demo_getTopStocks: "getTopStocks (demo narration) 2 (Num 1) = Inr (Entries [])"
proof -
  have 1: "nse_home (demo narration) = Inr None"
    "nse_gainers (demo narration) [] = Inr (Some [''TCS''])" by (simp_all add: demo_def)
  have 2: "slice0 [''TCS''] 2 = [''TCS'']" by (simp add: slice0_def)
  show ?thesis using demo_top_stock [of narration]
    by (auto simp add: getTopStocks_def 1 2 Let_def)
qed

lemma demo_getTopCryptos:
  "getTopCryptos (demo narration) 2 ''USD'' (Num 1) = Entries [NoneUnder (Num 1)]"
proof -
  have 1: "coingecko (demo narration) 2 = Inr (Some [\<lparr>coin_symbol = ''btc'', coin_name = ''Bitcoin''\<rparr>])"
    by (simp add: demo_def)
  show ?thesis using demo_top_crypto [of narration]
    by (auto simp add: getTopCryptos_def 1 conversionRate_def Let_def)
qed

text \<open>
  C2 at a failing input: the price of the one symbol is not under \<open>underPrice\<close>, and
  \<open>getStockPrice\<close> returns the empty list, as \<open>getTopStocks\<close> does, while \<open>getCryptoPrice\<close> and
  \<open>getTopCryptos\<close> in the same situation return the placeholder.
\<close>

theorem getStockPrice_no_placeholder:
  "getStockPrice (demo narration) [''TCS''] (Num 1) = Inr []
   \<and> getTopStocks (demo narration) 2 (Num 1) = Inr (Entries [])
   \<and> getCryptoPrice (demo narration) [''BTC''] ''USD'' (Num 1) = Inr [NoneUnder (Num 1)]
   \<and> getTopCryptos (demo narration) 2 ''USD'' (Num 1) = Entries [NoneUnder (Num 1)]"
  using demo_stock_TCS [of narration] demo_crypto_BTC [of narration]
  by (auto simp add: getStockPrice_def getCryptoPrice_def conversionRate_def demo_getTopStocks
      demo_getTopCryptos)

theorem getStockPrice_filter_throws_witness:
  "getStockPrice (demo narration) [''BAD'', ''TCS''] (Num 100) = Inl no_prices
 \<and> POST ddb_put
      (demo (calls ''get_stock_price''
         \<lparr>symbols = Some [''BAD'', ''TCS''], underPrice = Num 100, limit = None, currency = None,
          category = None\<rparr>))
      demo_table (Inr (ask ''Stocks under 100?''))
    = (Unavailable None, demo_table)"
proof -
  let ?a = "\<lparr>symbols = Some [''BAD'', ''TCS''], underPrice = Num 100, limit = None, currency = None,
          category = None\<rparr>"
  let ?w = "demo (calls ''get_stock_price'' ?a)"
  let ?fc = "\<lparr>call_name = ''get_stock_price'', arguments = Some (Parsed ?a)\<rparr>"
  have u: "Num 100 \<noteq> Undefined" by simp
  have f: "\<exists>s\<in>set [''BAD'', ''TCS'']. fetch_fails ?w s" by (simp add: demo_fetch_BAD)
  have f': "\<exists>s\<in>set [''BAD'', ''TCS'']. fetch_fails (demo narration) s" by (simp add: demo_fetch_BAD)
  have c: "create ?w (Decide (ask ''Stocks under 100?'')) = Inr (calls ''get_stock_price'' ?a)
         \<and> function_call (calls ''get_stock_price'' ?a) = Some ?fc
         \<and> call_name ?fc = ''get_stock_price'' \<and> parse_arguments ?fc = Inr ?a
         \<and> symbols ?a = Some [''BAD'', ''TCS''] \<and> underPrice ?a = Num 100"
    by (simp add: demo_def calls_def parse_arguments_def)
  have d: "unavailable ?w no_prices = Unavailable None" by (simp add: unavailable_def demo_def)
  show ?thesis
    using getStockPrice_filter_throws [where u = "Num 100" and syms = "[''BAD'', ''TCS'']"
        and w = "demo narration" and messages = "[]" and msg = narration and fc = ?fc and a = ?a
        and put = ddb_put and db = demo_table, OF u f']
      getStockPrice_filter_throws [where u = "Num 100" and syms = "[''BAD'', ''TCS'']"
        and w = ?w and messages = "ask ''Stocks under 100?''"
        and msg = "calls ''get_stock_price'' ?a" and fc = ?fc and a = ?a
        and put = ddb_put and db = demo_table, OF u f] c d
    by simp
qed


section \<open>getCryptoPrice and getTopCryptos: proofs\<close>









lemma prices0_at_rate_1:
  "prices0 (at_rate_1 r) =
     (case prices0 r of Inl e \<Rightarrow> Inl e
      | Inr p \<Rightarrow> Inr (case r of Asset a \<Rightarrow> (case prices a of [] \<Rightarrow> Undefined | q # qs \<Rightarrow> unconverted q)
                        | _ \<Rightarrow> p))"
  by (cases r) (simp_all split: list.splits)



















section \<open>POST: proofs\<close>

lemma POST_writes_only_after_call:
  "snd (POST put w db req) \<noteq> db \<Longrightarrow>
   \<exists>ms m fc. req = Inr ms \<and> create w (Decide ms) = Inr m \<and> function_call m = Some fc"
  by (auto simp: POST_def Let_def split: sum.splits option.splits)

text \<open>
  C6. When the model's first message carries no function call and a text, \<open>POST\<close> answers
  with the role \<open>assistant\<close> and that text only (a response with no \<open>rawData\<close>,
  \<open>functionName\<close> or \<open>messageId\<close>) and leaves the log store as it was, whatever a write
  would do to it. A request changes the log store only when the model's first message
  carries a function call.
\<close>

theorem POST_direct_answer:
  assumes "create w (Decide messages) = Inr msg" and "function_call msg = None"
    and "content msg = Some text" and "text \<noteq> []"
  shows "POST put w db (Inr messages) = (Answer ''assistant'' text, db)
       \<and> rawData (fst (POST put w db (Inr messages))) = None
       \<and> (snd (POST put w db req) \<noteq> db \<longrightarrow>
            (\<exists>ms m fc. req = Inr ms \<and> create w (Decide ms) = Inr m \<and> function_call m = Some fc))"
  using assms POST_writes_only_after_call [of put w db req]
  by (simp add: POST_def or_string_def)

theorem POST_direct_answer_witness:
  "POST ddb_put (demo narration) demo_table (Inr (ask ''Hello''))
     = (Answer ''assistant'' ''Here is the update.'', demo_table)"
proof -
  have 1: "create (demo narration) (Decide (ask ''Hello'')) = Inr narration"
    by (simp add: demo_def)
  have 2: "function_call narration = None" "content narration = Some ''Here is the update.''"
    "''Here is the update.'' \<noteq> []"
    by (simp_all add: narration_def)
  show ?thesis
    using POST_direct_answer [OF 1 2, of ddb_put demo_table "Inr (ask ''Hello'')"] by simp
qed

text \<open>
  C10. When the model's first message carries neither a function call nor a non-empty
  content, \<open>POST\<close> answers with the role \<open>assistant\<close> and the fixed fallback text.
\<close>

theorem POST_fallback:
  assumes "create w (Decide messages) = Inr msg" and "function_call msg = None"
    and "content msg = None \<or> content msg = Some []"
  shows "POST put w db (Inr messages)
           = (Answer ''assistant'' ''I'm here to help! Could you please clarify your request?'', db)"
  using assms by (auto simp add: POST_def or_string_def fallback_def)

theorem POST_fallback_witness:
  "POST ddb_put (demo silent) demo_table (Inr (ask ''Hello''))
     = (Answer ''assistant'' ''I'm here to help! Could you please clarify your request?'', demo_table)"
proof -
  have 1: "create (demo silent) (Decide (ask ''Hello'')) = Inr silent"
    by (simp add: demo_def)
  have 2: "function_call silent = None" "content silent = None \<or> content silent = Some []"
    by (simp_all add: silent_def)
  show ?thesis using POST_fallback [OF 1 2, of ddb_put demo_table] by simp
qed

lemma dispatch_unknown:
  "f \<notin> set dispatch_table \<Longrightarrow> dispatch w f a = Inr (ErrorObject ''Function not supported'')"
  by (simp add: dispatch_table_def dispatch_def)

text \<open>
  C7, as the code has it. The argument blob is parsed before the \<open>switch\<close>. When the model
  names a function that is not in the dispatch table and its argument blob parses, the
  dispatcher's result is the sentinel \<open>Function not supported\<close> and \<open>POST\<close> goes on to the
  narration with the sentinel as its data: the unknown name does not abort the turn,
  which then fails only if the narration request itself throws. When the narration
  answers, the response is a success, it carries the sentinel as \<open>rawData\<close>, and the
  exchange is logged.
\<close>

theorem POST_unknown_function:
  assumes "create w (Decide messages) = Inr msg" and "function_call msg = Some fc"
    and "call_name fc \<notin> set dispatch_table" and "parse_arguments fc = Inr a"
  shows "dispatch w (call_name fc) a = Inr (ErrorObject ''Function not supported'')
       \<and> POST put w db (Inr messages) =
           (case create w (NarrateUpdate messages (ErrorObject ''Function not supported'')) of
              Inl e \<Rightarrow> (unavailable w e, db)
            | Inr final \<Rightarrow>
                (Narrated final (ErrorObject ''Function not supported'') (call_name fc) (uuidv4 w),
                 (case put db (logItem w messages final) of Inl e \<Rightarrow> db | Inr db' \<Rightarrow> db')))
       \<and> (\<forall>final. create w (NarrateUpdate messages (ErrorObject ''Function not supported'')) = Inr final
            \<longrightarrow> chat_status (fst (POST put w db (Inr messages))) = 200
              \<and> rawData (fst (POST put w db (Inr messages)))
                  = Some (ErrorObject ''Function not supported''))"
proof -
  have d: "dispatch w (call_name fc) a = Inr (ErrorObject ''Function not supported'')"
    using assms(3) by (rule dispatch_unknown)
  have n: "call_name fc \<noteq> ''get_company_info''"
    using assms(3) by (auto simp: dispatch_table_def)
  have p: "POST put w db (Inr messages) =
           (case create w (NarrateUpdate messages (ErrorObject ''Function not supported'')) of
              Inl e \<Rightarrow> (unavailable w e, db)
            | Inr final \<Rightarrow>
                (Narrated final (ErrorObject ''Function not supported'') (call_name fc) (uuidv4 w),
                 (case put db (logItem w messages final) of Inl e \<Rightarrow> db | Inr db' \<Rightarrow> db')))"
    using assms(1,2,4) d n by (simp add: POST_def)
  show ?thesis using d p by simp
qed

theorem POST_unknown_function_witness:
  "POST ddb_put (demo (calls ''get_weather'' no_args)) Map.empty (Inr (ask ''Weather?''))
     = (Narrated narration (ErrorObject ''Function not supported'') ''get_weather'' ''id-1'',
        [''id-1'' \<mapsto> logItem (demo (calls ''get_weather'' no_args)) (ask ''Weather?'') narration])"
proof -
  let ?w = "demo (calls ''get_weather'' no_args)"
  let ?fc = "\<lparr>call_name = ''get_weather'', arguments = Some (Parsed no_args)\<rparr>"
  have 1: "create ?w (Decide (ask ''Weather?'')) = Inr (calls ''get_weather'' no_args)"
    by (simp add: demo_def)
  have 2: "function_call (calls ''get_weather'' no_args) = Some ?fc"
    by (simp add: calls_def)
  have 3: "call_name ?fc \<notin> set dispatch_table" by (simp add: dispatch_table_def)
  have 4: "parse_arguments ?fc = Inr no_args" by (simp add: parse_arguments_def)
  have 5: "create ?w (NarrateUpdate (ask ''Weather?'') (ErrorObject ''Function not supported''))
             = Inr narration"
    by (simp add: demo_def)
  have 6: "uuidv4 ?w = ''id-1''" by (simp add: demo_def)
  have 7: "logMessageId (logItem ?w (ask ''Weather?'') narration) = ''id-1''"
    by (simp add: logItem_def demo_def)
  show ?thesis
    using POST_unknown_function [OF 1 2 3 4, of ddb_put Map.empty] 5 6 7
    by (simp add: ddb_put_def)
qed

text \<open>
  The claim C7 as stated fails on two requests in which the model names \<open>get_weather\<close>,
  which is not in the dispatch table. In the first the argument blob is not JSON:
  parsing it throws before the \<open>switch\<close>, and the turn ends in the error of the top-level
  \<open>catch\<close>, with no sentinel and no narration. In the second the narration request
  throws, and the turn ends in the same error.
\<close>

theorem POST_unknown_function_counterexample:
  "''get_weather'' \<notin> set dispatch_table
   \<and> POST ddb_put (demo (garbled ''get_weather'')) demo_table (Inr (ask ''Weather?''))
       = (Unavailable None, demo_table)
   \<and> POST ddb_put (narration_down (demo (calls ''get_weather'' no_args))) demo_table
        (Inr (ask ''Weather?''))
       = (Unavailable None, demo_table)"
  by (simp add: dispatch_table_def POST_def demo_def garbled_def calls_def narration_down_def
      parse_arguments_def dispatch_def unavailable_def)

end
